theory Spec2Isabelle
  imports Complex_Main
begin

section \<open>Numbers\<close>

text \<open>
  Python integers are unbounded: they are \<open>int\<close>, whose \<open>div\<close> and \<open>mod\<close> round
  towards minus infinity as Python's \<open>//\<close> and \<open>%\<close> do. The floats of the source (the
  random multiplier, the bar height multiplier, the mean of a position, the clock) are
  modelled by exact rationals: products and quotients are not rounded to 53 bits.
  \<open>int(x)\<close> on a float truncates towards zero.
\<close>

definition py_int :: "rat \<Rightarrow> int" where
  "py_int x = (if 0 \<le> x then \<lfloor>x\<rfloor> else \<lceil>x\<rceil>)"

datatype py_error = ZeroDivisionError | AssertionError | IndexError | ValueError | TypeError

text \<open>
  A number that is printed or stored by the loop is either an \<open>int\<close> (a tick value, the
  literal \<open>0\<close> of the status line) or a float (a mean); \<open>np.mean\<close> of an empty
  sequence is \<open>nan\<close>.
\<close>

datatype pynum = PyInt int | PyFloat rat | PyNaN

section \<open>The price process\<close>

text \<open>
  \<open>random.uniform(a, b)\<close> is \<open>a + (b - a) * random()\<close>, where \<open>random()\<close> lies in
  \<open>[0, 1)\<close>; the end point \<open>b\<close> may be produced by rounding. The draw \<open>r\<close> is an
  argument of the model, so that a statement about every \<open>r\<close> between 0 and 1 is a
  statement about every multiplier of the closed interval.
\<close>

definition uniform :: "rat \<Rightarrow> rat \<Rightarrow> rat \<Rightarrow> rat" where
  "uniform a b r = a + (b - a) * r"

definition number_generator :: "int \<Rightarrow> int \<Rightarrow> rat \<Rightarrow> int" where
  "number_generator previous_value expected_value r =
     (let multiplier =
        (if previous_value > expected_value
         then of_int previous_value * uniform (3 / 4) (11 / 10) r
         else of_int previous_value * uniform (9 / 10) (5 / 4) r)
      in py_int multiplier)"


text \<open>The multiplier of either branch lies between 0.75 and 1.25.\<close>

definition drawn_multiplier :: "int \<Rightarrow> int \<Rightarrow> rat \<Rightarrow> rat" where
  "drawn_multiplier previous_value expected_value r =
     (if previous_value > expected_value then uniform (3 / 4) (11 / 10) r
      else uniform (9 / 10) (5 / 4) r)"

section \<open>Arrays\<close>

text \<open>
  An image is a numpy array of shape (height, width, 3): a list of rows, each a list of
  pixels, each pixel a triple of channel values. Axis 0 indexes rows, axis 1 the
  pixel-columns.
\<close>

type_synonym pixel = "nat \<times> nat \<times> nat"
type_synonym image = "pixel list list"

definition and_then :: "py_error + 'a \<Rightarrow> ('a \<Rightarrow> py_error + 'b) \<Rightarrow> py_error + 'b" where
  "and_then m f = (case m of Inl e \<Rightarrow> Inl e | Inr x \<Rightarrow> f x)"

text \<open>\<open>np.zeros((h, w, 3))\<close>: negative dimensions are refused.\<close>

definition np_zeros :: "int \<Rightarrow> int \<Rightarrow> py_error + image" where
  "np_zeros h w =
     (if h < 0 \<or> w < 0 then Inl ValueError
      else Inr (replicate (nat h) (replicate (nat w) (0, 0, 0))))"

text \<open>
  \<open>a[i] = colour\<close> with an integer \<open>i\<close>: the whole row \<open>i\<close> is painted; a negative
  index counts from the end; an index outside \<open>-n \<le> i < n\<close> raises IndexError.
\<close>

definition set_row :: "image \<Rightarrow> int \<Rightarrow> pixel \<Rightarrow> py_error + image" where
  "set_row a i colour =
     (let n = int (length a)
      in if i < - n \<or> n \<le> i then Inl IndexError
         else (let j = nat (if i < 0 then i + n else i)
               in Inr (a[j := map (\<lambda>_. colour) (a ! j)])))"

text \<open>
  The bounds of a slice with step 1 on an axis of length \<open>n\<close>, as
  \<open>slice.indices\<close> computes them: a negative bound counts from the end, and the result
  is clamped to \<open>0 .. n\<close>.
\<close>

definition slice_bound :: "nat \<Rightarrow> int \<Rightarrow> nat" where
  "slice_bound n i = (if i < 0 then nat (max (i + int n) 0) else min (nat i) n)"

text \<open>\<open>a[lo:hi] = colour\<close>: the rows of the slice are painted; a slice never raises.\<close>

definition set_rows :: "image \<Rightarrow> int \<Rightarrow> int \<Rightarrow> pixel \<Rightarrow> image" where
  "set_rows a lo hi colour =
     (let l = slice_bound (length a) lo; h = slice_bound (length a) hi
      in map (\<lambda>j. if l \<le> j \<and> j < h then map (\<lambda>_. colour) (a ! j) else a ! j)
           [0 ..< length a])"

text \<open>\<open>np.delete(a, np.s_[:k], axis=1)\<close>: every row loses the pixels of the slice.\<close>

definition np_delete :: "image \<Rightarrow> int \<Rightarrow> image" where
  "np_delete a k = map (\<lambda>row. drop (slice_bound (length row) k) row) a"

text \<open>
  \<open>np.concatenate((a, b), axis=1)\<close>: the rows are joined; the arrays must agree on
  the other axes.
\<close>

definition np_concatenate :: "image \<Rightarrow> image \<Rightarrow> py_error + image" where
  "np_concatenate a b =
     (if length a \<noteq> length b then Inl ValueError else Inr (map2 (@) a b))"

text \<open>\<open>np.mean\<close> of a sequence of integers.\<close>

definition np_mean :: "int list \<Rightarrow> pynum" where
  "np_mean xs = (if xs = [] then PyNaN else PyFloat (of_int (sum_list xs) / of_int (int (length xs))))"

text \<open>\<open>mean - value\<close> for a float mean and an integer value.\<close>

fun minus_int :: "pynum \<Rightarrow> int \<Rightarrow> pynum" where
  "minus_int (PyInt k) v = PyInt (k - v)"
| "minus_int (PyFloat q) v = PyFloat (q - of_int v)"
| "minus_int PyNaN v = PyNaN"

section \<open>The simulator object\<close>

record trade =
  buy :: pynum
  sell :: int

record TradingSimulator =
  n_max :: int
  n_min :: int
  n_ticks :: int
  t_update :: rat
  image_shape :: "int \<times> int"
  show_expected_value_line :: bool
  trades :: "trade list"
  possible_range :: int
  expected_value :: int
  BAR_WIDTH :: int
  BAR_HEIGHT_MULTIPLIER :: rat


text \<open>The simulator of the default arguments, \<open>TradingSimulator()\<close>.\<close>

definition default_simulator :: TradingSimulator where
  "default_simulator =
     \<lparr> n_max = 10, n_min = 0, n_ticks = 100, t_update = 1 / 50,
       image_shape = (250, 1000), show_expected_value_line = True,
       trades = [], possible_range = 90, expected_value = 45,
       BAR_WIDTH = 10, BAR_HEIGHT_MULTIPLIER = 25 / 9 \<rparr>"

section \<open>Rendering a column and scrolling\<close>

text \<open>
  The row indices that \<open>update\<close> computes: of the expected value line (lines 162 and
  163), of the current value (line 177), and of the value before it, the far end of the
  band (lines 169 and 172).
\<close>

definition ev_row :: "TradingSimulator \<Rightarrow> int" where
  "ev_row sim = py_int (of_int (expected_value sim) * BAR_HEIGHT_MULTIPLIER sim)"

definition value_row :: "TradingSimulator \<Rightarrow> int \<Rightarrow> int" where
  "value_row sim nv = py_int (BAR_HEIGHT_MULTIPLIER sim * of_int nv)"

definition band_row :: "TradingSimulator \<Rightarrow> int \<Rightarrow> int" where
  "band_row sim nv = py_int (of_int (nv - 1) * BAR_HEIGHT_MULTIPLIER sim)"

text \<open>
  Lines 155 to 158: green for a buy, red for a sale. \<open>colour\<close> is bound only when
  \<open>bought\<close> or \<open>sold\<close> holds, and read only then.
\<close>

definition colour_of :: "bool \<Rightarrow> bool \<Rightarrow> pixel" where
  "colour_of bought sold = (if bought then (0, 255, 0) else (0, 0, 255))"

text \<open>Lines 165 to 174: the band between the expected value and the traded value.\<close>

definition draw_band :: "TradingSimulator \<Rightarrow> int \<Rightarrow> bool \<Rightarrow> bool \<Rightarrow> image \<Rightarrow> image" where
  "draw_band sim nv bought sold next_col =
     (if bought \<or> sold then
        (if nv > expected_value sim
         then set_rows next_col (ev_row sim) (band_row sim nv) (colour_of bought sold)
         else set_rows next_col (band_row sim nv) (ev_row sim) (colour_of bought sold))
      else next_col)"

text \<open>Lines 154 to 177 of \<open>update\<close>: the new column.\<close>

definition render_column :: "TradingSimulator \<Rightarrow> int \<Rightarrow> bool \<Rightarrow> bool \<Rightarrow> py_error + image" where
  "render_column sim nv bought sold =
     and_then (np_zeros (fst (image_shape sim)) (BAR_WIDTH sim)) (\<lambda>next_col.
       and_then
         (if show_expected_value_line sim then set_row next_col (ev_row sim) (255, 0, 0)
          else Inr next_col) (\<lambda>next_col.
         set_row (draw_band sim nv bought sold next_col) (value_row sim nv) (255, 255, 255)))"

text \<open>Lines 179 and 180 of \<open>update\<close>: drop the oldest bar, append the new column.\<close>

definition append_and_scroll :: "TradingSimulator \<Rightarrow> image \<Rightarrow> image \<Rightarrow> py_error + image" where
  "append_and_scroll sim im next_col = np_concatenate (np_delete im (BAR_WIDTH sim)) next_col"

definition update :: "TradingSimulator \<Rightarrow> image \<Rightarrow> int \<Rightarrow> bool \<Rightarrow> bool \<Rightarrow> py_error + image" where
  "update sim im nv bought sold =
     and_then (render_column sim nv bought sold) (append_and_scroll sim im)"



text \<open>
  An integer index is accepted on an axis of length \<open>h\<close>. A column renders when the
  shape is not negative and the rows that lines 162 and 177 index are accepted.
\<close>

definition in_bounds :: "int \<Rightarrow> int \<Rightarrow> bool" where
  "in_bounds h i = (- h \<le> i \<and> i < h)"

definition renders :: "TradingSimulator \<Rightarrow> int \<Rightarrow> bool" where
  "renders sim nv =
     (0 \<le> fst (image_shape sim) \<and> 0 \<le> BAR_WIDTH sim
      \<and> (show_expected_value_line sim \<longrightarrow> in_bounds (fst (image_shape sim)) (ev_row sim))
      \<and> in_bounds (fst (image_shape sim)) (value_row sim nv))"

section \<open>The loop\<close>

text \<open>What the loop prints, one value per \<open>print\<close>.\<close>

datatype event =
    Bought_at int
  | No_bought_shares
  | Sold_at int
  | Profit pynum pynum int
  | Position_status pynum
  | Hotkeys
  | Step int
  | Elapsed rat

text \<open>
  The local variables of \<open>__call__\<close>, the object and the standard output. The flag
  starts as \<open>0\<close>, which is false.
\<close>

record state =
  self :: TradingSimulator
  bought_position :: "int list option"
  next_val :: int
  previous_step_time :: rat
  img :: image
  transaction_made_in_tick :: bool
  stdout :: "event list"

definition print :: "event list \<Rightarrow> state \<Rightarrow> state" where
  "print es st = st\<lparr>stdout := stdout st @ es\<rparr>"

text \<open>Lines 63 to 69: the state in which the loop is entered at time \<open>now\<close>.\<close>

definition enter :: "TradingSimulator \<Rightarrow> rat \<Rightarrow> py_error + state" where
  "enter sim now =
     and_then (np_zeros (fst (image_shape sim)) (snd (image_shape sim))) (\<lambda>im.
       Inr \<lparr> self = sim, bought_position = None, next_val = expected_value sim,
             previous_step_time = now, img = im, transaction_made_in_tick = False,
             stdout = [] \<rparr>)"

text \<open>
  Lines 79 to 116: the branches on the key \<open>k\<close> other than ESC. The keys are
  \<open>ord("c") = 99\<close>, \<open>ord("v") = 118\<close>, \<open>ord("s") = 115\<close> and \<open>ord("q") = 113\<close>.
  In the third branch the position is not \<open>None\<close> while the flag is clear, by the
  second branch.
\<close>

definition dispatch :: "int \<Rightarrow> state \<Rightarrow> py_error + state" where
  "dispatch k st =
     (if k = 99 \<and> \<not> transaction_made_in_tick st then
        (let st1 = print [Bought_at (next_val st)] st;
             st2 = st1\<lparr>bought_position :=
                     (case bought_position st1 of None \<Rightarrow> Some [next_val st1]
                      | Some entries \<Rightarrow> Some (entries @ [next_val st1]))\<rparr>
         in and_then (update (self st2) (img st2) (next_val st2) True False) (\<lambda>im.
              Inr (st2\<lparr>img := im, transaction_made_in_tick := True\<rparr>)))
      else if k = 118 \<and> bought_position st = None \<and> \<not> transaction_made_in_tick st then
        Inr (print [No_bought_shares] st)
      else if k = 118 \<and> \<not> transaction_made_in_tick st then
        and_then (update (self st) (img st) (next_val st) False True) (\<lambda>im.
          (case bought_position st of
             None \<Rightarrow> Inl TypeError
           | Some entries \<Rightarrow>
               (let st1 = st\<lparr>img := im\<rparr>;
                    mean_bought_position = np_mean entries;
                    st2 = print [Sold_at (next_val st1),
                                 Profit (minus_int mean_bought_position (next_val st1))
                                   mean_bought_position (next_val st1)] st1;
                    st3 = st2\<lparr>self := (self st2)\<lparr>trades := trades (self st2) @
                             [\<lparr>buy = mean_bought_position, sell = next_val st2\<rparr>]\<rparr>\<rparr>
                in Inr (st3\<lparr>bought_position := None, transaction_made_in_tick := True\<rparr>))))
      else if k = 115 then
        Inr (print [Position_status
                      (case bought_position st of None \<Rightarrow> PyInt 0
                       | Some entries \<Rightarrow> np_mean entries)] st)
      else if k = 113 then Inr (print [Hotkeys] st)
      else Inr st)"

text \<open>Lines 118 to 125: the tick gate, at the time \<open>current_time\<close> read by line 118.\<close>

definition tick_gate :: "rat \<Rightarrow> state \<Rightarrow> py_error + state" where
  "tick_gate current_time st =
     (if current_time - previous_step_time st > t_update (self st) then
        (let st1 = print [Step (next_val st), Elapsed (current_time - previous_step_time st)] st;
             st2 = st1\<lparr>previous_step_time := current_time\<rparr>
         in and_then
              (if \<not> transaction_made_in_tick st2
               then and_then (update (self st2) (img st2) (next_val st2) False False) (\<lambda>im.
                      Inr (st2\<lparr>img := im\<rparr>))
               else Inr st2) (\<lambda>st3.
            Inr (st3\<lparr>transaction_made_in_tick := False\<rparr>)))
      else Inr st)"

text \<open>
  What one iteration of the loop reads from outside: the draw of the generator, the key
  returned by \<open>cv2.waitKey\<close> (\<open>-1\<close> when none is pressed) and the clock.
\<close>

record poll =
  draw :: rat
  key :: int
  clock :: rat

text \<open>
  Lines 71 to 125: one iteration. The result says whether the loop goes on: ESC (27)
  breaks out of it before the tick gate.
\<close>

definition iteration :: "poll \<Rightarrow> state \<Rightarrow> py_error + bool \<times> state" where
  "iteration p st =
     (let st1 = st\<lparr>next_val :=
                  number_generator (next_val st) (expected_value (self st)) (draw p)\<rparr>
      in if key p = 27 then Inr (False, st1)
         else and_then (dispatch (key p) st1) (\<lambda>st2.
                and_then (tick_gate (clock p) st2) (\<lambda>st3. Inr (True, st3))))"

text \<open>
  The loop on a finite sequence of polls: it stops at the first ESC or exception, and is
  still running when the polls are used up.
\<close>

fun iterations :: "poll list \<Rightarrow> state \<Rightarrow> py_error + bool \<times> state" where
  "iterations [] st = Inr (True, st)"
| "iterations (p # ps) st =
     and_then (iteration p st) (\<lambda>(running, st').
       if running then iterations ps st' else Inr (False, st'))"

section \<open>Runs and states used as examples\<close>

text \<open>One iteration's first step: line 71 replaces the price.\<close>

definition reprice :: "poll \<Rightarrow> state \<Rightarrow> state" where
  "reprice p st = st\<lparr>next_val := number_generator (next_val st) (expected_value (self st)) (draw p)\<rparr>"

text \<open>
  An iteration in which no key is pressed and \<open>random()\<close> returns 0.9, before and
  after the tick period has passed; the buffer \<open>np.zeros((250, 1000, 3))\<close>; the state
  in which the default simulator enters the loop at time 0; a state right after a purchase
  at 45.
\<close>

definition quiet :: poll where
  "quiet = \<lparr>draw = 9 / 10, key = - 1, clock = 0\<rparr>"

definition quiet_tick :: poll where
  "quiet_tick = \<lparr>draw = 9 / 10, key = - 1, clock = 1\<rparr>"

definition blank :: image where
  "blank = replicate 250 (replicate 1000 (0, 0, 0))"


definition fresh :: state where
  "fresh =
     \<lparr> self = default_simulator, bought_position = None, next_val = 45,
       previous_step_time = 0, img = blank, transaction_made_in_tick = False, stdout = [] \<rparr>"

text \<open>
  A purchase in the iteration in which the tick period has passed, a sale in the next
  iteration, within the new tick window, and the state the loop is in after the two.
\<close>

definition buy_at_tick :: poll where
  "buy_at_tick = \<lparr>draw = 1 / 2, key = 99, clock = 1\<rparr>"

definition sell_in_window :: poll where
  "sell_in_window = \<lparr>draw = 1 / 2, key = 118, clock = 1\<rparr>"

definition sold :: state where
  "sold = (case iterations [buy_at_tick, sell_in_window] fresh of
             Inr (running, st) \<Rightarrow> st | Inl e \<Rightarrow> fresh)"

section \<open>Properties of the price process\<close>

lemma py_int_nonneg: "0 \<le> x \<Longrightarrow> py_int x = \<lfloor>x\<rfloor>"
  by (simp add: py_int_def)

lemma uniform_bounds:
  assumes "a \<le> b" and "0 \<le> r" and "r \<le> 1"
  shows "a \<le> uniform a b r" and "uniform a b r \<le> b"
proof -
  have d: "0 \<le> b - a" using assms(1) by simp
  show "a \<le> uniform a b r"
    using mult_nonneg_nonneg [OF d assms(2)] by (simp add: uniform_def)
  have "(b - a) * r \<le> (b - a) * 1"
    using d assms(3) by (rule mult_left_mono [rotated])
  then show "uniform a b r \<le> b" by (simp add: uniform_def)
qed

lemma uniform_onto:
  assumes "a < b" and "a \<le> m" and "m \<le> b"
  shows "0 \<le> (m - a) / (b - a)" and "(m - a) / (b - a) \<le> 1"
    and "uniform a b ((m - a) / (b - a)) = m"
  using assms by (simp_all add: uniform_def)

lemma drawn_multiplier_range:
  assumes "0 \<le> r" and "r \<le> 1"
  shows "3 / 4 \<le> drawn_multiplier p e r" and "drawn_multiplier p e r \<le> 5 / 4"
proof -
  have a: "3 / 4 \<le> uniform (3 / 4) (11 / 10) r" "uniform (3 / 4) (11 / 10) r \<le> 11 / 10"
    using uniform_bounds [of "3 / 4" "11 / 10" r] assms by simp_all
  have b: "9 / 10 \<le> uniform (9 / 10) (5 / 4) r" "uniform (9 / 10) (5 / 4) r \<le> 5 / 4"
    using uniform_bounds [of "9 / 10" "5 / 4" r] assms by simp_all
  show "3 / 4 \<le> drawn_multiplier p e r"
    using a(1) b(1) by (simp add: drawn_multiplier_def)
  show "drawn_multiplier p e r \<le> 5 / 4"
    using a(2) b(2) by (simp add: drawn_multiplier_def)
qed

lemma number_generator_product:
  "number_generator p e r = py_int (of_int p * drawn_multiplier p e r)"
  by (simp add: number_generator_def drawn_multiplier_def)

lemma number_generator_floor:
  assumes "0 \<le> p" and "0 \<le> r" and "r \<le> 1"
  shows "number_generator p e r = \<lfloor>of_int p * drawn_multiplier p e r\<rfloor>"
proof -
  have "0 \<le> drawn_multiplier p e r"
    using drawn_multiplier_range(1) [OF assms(2,3), of p e] by simp
  then have "0 \<le> (of_int p :: rat) * drawn_multiplier p e r"
    using assms(1) by simp
  then show ?thesis
    by (simp add: number_generator_product py_int_nonneg)
qed


lemma number_generator_upper:
  assumes "0 \<le> p" and "0 \<le> r" and "r \<le> 1"
  shows "(of_int (number_generator p e r) :: rat) \<le> of_int p * (5 / 4)"
proof -
  have "(of_int \<lfloor>of_int p * drawn_multiplier p e r\<rfloor> :: rat) \<le> of_int p * drawn_multiplier p e r"
    by (rule of_int_floor_le)
  also have "\<dots> \<le> of_int p * (5 / 4)"
    using drawn_multiplier_range(2) [OF assms(2,3), of p e] assms(1)
    by (intro mult_left_mono) simp_all
  finally show ?thesis
    unfolding number_generator_floor [OF assms] .
qed

lemma number_generator_nonneg:
  assumes "0 \<le> p" and "0 \<le> r" and "r \<le> 1"
  shows "0 \<le> number_generator p e r"
proof -
  have "0 \<le> drawn_multiplier p e r"
    using drawn_multiplier_range(1) [OF assms(2,3), of p e] by simp
  then have "0 \<le> (of_int p :: rat) * drawn_multiplier p e r"
    using assms(1) by simp
  then show ?thesis
    unfolding number_generator_floor [OF assms] by simp
qed

lemma number_generator_small:
  assumes "0 \<le> p" and "p < 4" and "0 \<le> r" and "r \<le> 1"
  shows "number_generator p e r \<le> p"
proof -
  have "(of_int (number_generator p e r) :: rat) \<le> of_int p * (5 / 4)"
    using assms by (intro number_generator_upper) simp_all
  also have "\<dots> < of_int p + 1"
  proof -
    have "(of_int p :: rat) < 4" using assms(2) by simp
    then show ?thesis by simp
  qed
  finally have "(of_int (number_generator p e r) :: rat) < of_int (p + 1)"
    by simp
  then have "number_generator p e r < p + 1"
    by (simp only: of_int_less_iff)
  then show ?thesis by simp
qed



text \<open>
  Claim C8. For every reference value and every draw, \<open>number_generator 0 reference\<close> is
  0: zero is an absorbing state of the price process.
\<close>

theorem number_generator_zero_absorbing:
  "number_generator 0 reference r = 0"
  by (simp add: number_generator_def py_int_def)

text \<open>
  Claim C9. For every previous value in \<open>{0, 1, 2, 3}\<close>, every reference value and every
  draw, the next value is at most the previous one; hence a price below 4 stays below 4.
\<close>

theorem number_generator_trap_below_four:
  assumes "previous \<in> {0, 1, 2, 3}" and "0 \<le> r" and "r \<le> 1"
  shows "number_generator previous reference r \<le> previous
       \<and> 0 \<le> number_generator previous reference r
       \<and> number_generator previous reference r < 4"
proof -
  have p: "0 \<le> previous" "previous < 4"
    using assms(1) by auto
  have "number_generator previous reference r \<le> previous"
    using p assms(2,3) by (rule number_generator_small)
  moreover have "0 \<le> number_generator previous reference r"
    using p(1) assms(2,3) by (rule number_generator_nonneg)
  ultimately show ?thesis using p(2) by simp
qed

theorem number_generator_trap_below_four_witness:
  "(3::int) \<in> {0, 1, 2, 3} \<and> (0::rat) \<le> 1 \<and> (1::rat) \<le> 1
   \<and> number_generator 3 45 1 = 3
   \<and> number_generator 3 45 1 \<le> 3 \<and> number_generator 3 45 1 < 4"
proof -
  have v: "number_generator 3 45 1 = 3"
    by code_simp
  show ?thesis
    using number_generator_trap_below_four [of 3 1 45] v by simp
qed

section \<open>Construction\<close>

lemma and_then_Inl [simp]: "and_then (Inl e) f = Inl e"
  by (simp add: and_then_def)

lemma and_then_Inr [simp]: "and_then (Inr x) f = f x"
  by (simp add: and_then_def)

lemma and_then_eq_Inr: "and_then m f = Inr y \<longleftrightarrow> (\<exists>x. m = Inr x \<and> f x = Inr y)"
  by (cases m) simp_all









section \<open>Rendering a column\<close>

lemma set_row_Inr:
  assumes "in_bounds (int (length a)) i"
  shows "\<exists>b. set_row a i c = Inr b"
  using assms by (simp add: set_row_def in_bounds_def Let_def)

lemma set_row_Inl:
  assumes "\<not> in_bounds (int (length a)) i"
  shows "set_row a i c = Inl IndexError"
  using assms by (auto simp: set_row_def in_bounds_def Let_def)

lemma set_row_shape:
  assumes "set_row a i c = Inr b"
  shows "map length b = map length a" and "in_bounds (int (length a)) i"
proof -
  show "in_bounds (int (length a)) i"
    using assms by (auto simp: set_row_def in_bounds_def Let_def split: if_splits)
  obtain j where b: "b = a[j := map (\<lambda>_. c) (a ! j)]"
    using assms by (auto simp: set_row_def Let_def split: if_splits)
  show "map length b = map length a"
  proof (cases "j < length a")
    case True
    then show ?thesis unfolding b by (simp add: map_update list_update_same_conv)
  next
    case False
    then show ?thesis unfolding b by (simp add: list_update_beyond)
  qed
qed

lemma set_rows_shape: "map length (set_rows a lo hi c) = map length a"
  by (rule nth_equalityI) (simp_all add: set_rows_def Let_def)

lemma np_zeros_Inr:
  assumes "np_zeros h w = Inr a"
  shows "0 \<le> h" and "0 \<le> w" and "map length a = replicate (nat h) (nat w)"
  using assms by (auto simp: np_zeros_def split: if_splits)

lemma np_zeros_ok:
  assumes "0 \<le> h" and "0 \<le> w"
  shows "np_zeros h w = Inr (replicate (nat h) (replicate (nat w) (0, 0, 0)))"
  using assms by (simp add: np_zeros_def)

lemma length_of_shape: "map length a = replicate n w \<Longrightarrow> length a = n"
  by (metis length_map length_replicate)

lemma draw_band_shape: "map length (draw_band sim nv bo so c) = map length c"
  by (simp add: draw_band_def set_rows_shape)

lemma render_column_Inr:
  assumes "render_column sim nv bo so = Inr col"
  shows "renders sim nv"
    and "map length col = replicate (nat (fst (image_shape sim))) (nat (BAR_WIDTH sim))"
proof -
  let ?H = "fst (image_shape sim)"
  let ?shape = "replicate (nat ?H) (nat (BAR_WIDTH sim))"
  from assms obtain c0 c1 where
    z: "np_zeros ?H (BAR_WIDTH sim) = Inr c0" and
    e: "(if show_expected_value_line sim then set_row c0 (ev_row sim) (255, 0, 0) else Inr c0) = Inr c1" and
    v: "set_row (draw_band sim nv bo so c1) (value_row sim nv) (255, 255, 255) = Inr col"
    unfolding render_column_def and_then_eq_Inr by blast
  have s0: "map length c0 = ?shape" and h: "0 \<le> ?H" and w: "0 \<le> BAR_WIDTH sim"
    using np_zeros_Inr [OF z] by simp_all
  have s1: "map length c1 = ?shape"
    and b1: "show_expected_value_line sim \<longrightarrow> in_bounds (int (length c0)) (ev_row sim)"
    using e s0 set_row_shape [of c0 "ev_row sim" "(255, 0, 0)" c1]
    by (auto split: if_splits)
  have s2: "map length (draw_band sim nv bo so c1) = ?shape"
    using s1 by (simp add: draw_band_shape)
  have l0: "int (length c0) = ?H"
    using length_of_shape [OF s0] h by simp
  have l2: "int (length (draw_band sim nv bo so c1)) = ?H"
    using length_of_shape [OF s2] h by simp
  show "map length col = ?shape"
    using set_row_shape(1) [OF v] s2 by simp
  have "in_bounds (int (length (draw_band sim nv bo so c1))) (value_row sim nv)"
    using v by (rule set_row_shape(2))
  then show "renders sim nv"
    using b1 h w unfolding renders_def l0 l2 by simp
qed

lemma render_column_ok:
  assumes "renders sim nv"
  shows "\<exists>col. render_column sim nv bo so = Inr col"
proof -
  let ?H = "fst (image_shape sim)"
  have h: "0 \<le> ?H" and w: "0 \<le> BAR_WIDTH sim"
    and be: "show_expected_value_line sim \<longrightarrow> in_bounds ?H (ev_row sim)"
    and bv: "in_bounds ?H (value_row sim nv)"
    using assms by (simp_all add: renders_def)
  define c0 :: image where "c0 = replicate (nat ?H) (replicate (nat (BAR_WIDTH sim)) (0, 0, 0))"
  have z: "np_zeros ?H (BAR_WIDTH sim) = Inr c0"
    unfolding c0_def using h w by (rule np_zeros_ok)
  have l0: "int (length c0) = ?H" using h by (simp add: c0_def)
  obtain c1 where e: "(if show_expected_value_line sim then set_row c0 (ev_row sim) (255, 0, 0) else Inr c0) = Inr c1"
    using set_row_Inr [of c0 "ev_row sim" "(255, 0, 0)"] be l0 by (cases "show_expected_value_line sim") auto
  have s1: "map length c1 = map length c0"
    using e set_row_shape(1) [of c0 "ev_row sim" "(255, 0, 0)" c1] by (auto split: if_splits)
  have "map length (draw_band sim nv bo so c1) = map length c0"
    using s1 by (simp add: draw_band_shape)
  then have "length (draw_band sim nv bo so c1) = length c0"
    by (metis length_map)
  then have "in_bounds (int (length (draw_band sim nv bo so c1))) (value_row sim nv)"
    using bv l0 by simp
  then obtain col where "set_row (draw_band sim nv bo so c1) (value_row sim nv) (255, 255, 255) = Inr col"
    using set_row_Inr by blast
  then have "render_column sim nv bo so = Inr col"
    unfolding render_column_def using z e by simp
  then show ?thesis ..
qed

lemma render_column_iff: "(\<exists>col. render_column sim nv bo so = Inr col) \<longleftrightarrow> renders sim nv"
  using render_column_Inr(1) render_column_ok by blast

section \<open>Scrolling the buffer\<close>


lemma length_np_delete [simp]: "length (np_delete im k) = length im"
  by (simp add: np_delete_def)


lemma update_Inr_iff:
  "update sim im nv bo so = Inr im' \<longleftrightarrow>
     (\<exists>col. render_column sim nv bo so = Inr col \<and> length im = length col
        \<and> im' = map2 (@) (np_delete im (BAR_WIDTH sim)) col)"
  by (auto simp: update_def and_then_eq_Inr append_and_scroll_def np_concatenate_def)

lemma update_raises:
  assumes "\<not> renders sim nv"
  shows "isl (update sim im nv bo so)"
proof (cases "update sim im nv bo so")
  case (Inr im')
  then have "renders sim nv"
    unfolding update_Inr_iff using render_column_Inr(1) by blast
  with assms show ?thesis by simp
qed simp



lemma render_column_IndexError:
  assumes h: "0 \<le> fst (image_shape sim)" and w: "0 \<le> BAR_WIDTH sim"
    and v: "\<not> in_bounds (fst (image_shape sim)) (value_row sim nv)"
  shows "render_column sim nv bo so = Inl IndexError"
proof -
  let ?H = "fst (image_shape sim)"
  define c0 :: image where "c0 = replicate (nat ?H) (replicate (nat (BAR_WIDTH sim)) (0, 0, 0))"
  have z: "np_zeros ?H (BAR_WIDTH sim) = Inr c0"
    unfolding c0_def using h w by (rule np_zeros_ok)
  have l0: "int (length c0) = ?H" using h by (simp add: c0_def)
  let ?e = "if show_expected_value_line sim then set_row c0 (ev_row sim) (255, 0, 0) else Inr c0"
  show ?thesis
  proof (cases ?e)
    case (Inl e)
    then have "show_expected_value_line sim" and "set_row c0 (ev_row sim) (255, 0, 0) = Inl e"
      by (auto split: if_splits)
    moreover from this have "e = IndexError"
      by (auto simp: set_row_def Let_def split: if_splits)
    ultimately show ?thesis
      unfolding render_column_def using z by simp
  next
    case (Inr c1)
    then have "map length c1 = map length c0"
      using set_row_shape(1) [of c0 "ev_row sim" "(255, 0, 0)" c1] by (auto split: if_splits)
    then have "map length (draw_band sim nv bo so c1) = map length c0"
      by (simp add: draw_band_shape)
    then have "length (draw_band sim nv bo so c1) = length c0"
      by (metis length_map)
    then have "\<not> in_bounds (int (length (draw_band sim nv bo so c1))) (value_row sim nv)"
      using v l0 by simp
    then have "set_row (draw_band sim nv bo so c1) (value_row sim nv) (255, 255, 255) = Inl IndexError"
      by (rule set_row_Inl)
    then show ?thesis
      unfolding render_column_def using z Inr by simp
  qed
qed

lemma update_IndexError:
  assumes "0 \<le> fst (image_shape sim)" and "0 \<le> BAR_WIDTH sim"
    and "\<not> in_bounds (fst (image_shape sim)) (value_row sim nv)"
  shows "update sim im nv bo so = Inl IndexError"
  unfolding update_def render_column_IndexError [OF assms] by simp

lemma floor_rat_numeral: "\<lfloor>numeral a / numeral b :: rat\<rfloor> = numeral a div numeral b"
  using floor_divide_of_int_eq [of "numeral a" "numeral b", where ?'a = rat] by simp

lemma value_row_default: "value_row default_simulator nv = py_int (25 / 9 * of_int nv)"
  by (simp add: value_row_def default_simulator_def)

lemma value_row_default_94: "value_row default_simulator 94 = 261"
  by (simp add: value_row_default py_int_def floor_rat_numeral)

section \<open>The loop's branches\<close>

lemma print_Nil [simp]: "print [] st = st"
  by (simp add: print_def)

lemma update_ok:
  assumes "renders sim nv" and "length im = nat (fst (image_shape sim))"
  shows "\<exists>im'. update sim im nv bo so = Inr im' \<and> length im' = length im"
proof -
  obtain col where r: "render_column sim nv bo so = Inr col"
    using render_column_ok [OF assms(1)] by blast
  have "length col = length im"
    using length_of_shape [OF render_column_Inr(2) [OF r]] assms(2) by simp
  then show ?thesis
    unfolding update_Inr_iff using r by simp
qed


lemma dispatch_status:
  "dispatch 115 st = Inr (print [Position_status
      (case bought_position st of None \<Rightarrow> PyInt 0 | Some entries \<Rightarrow> np_mean entries)] st)"
  by (simp add: dispatch_def)


lemma tick_gate_closed:
  assumes "\<not> clock_now - previous_step_time st > t_update (self st)"
  shows "tick_gate clock_now st = Inr st"
  using assms by (simp add: tick_gate_def)

lemma tick_gate_after_transaction:
  assumes "clock_now - previous_step_time st > t_update (self st)" and "transaction_made_in_tick st"
  shows "tick_gate clock_now st =
     Inr (print [Step (next_val st), Elapsed (clock_now - previous_step_time st)] st
           \<lparr>previous_step_time := clock_now, transaction_made_in_tick := False\<rparr>)"
  using assms by (simp add: tick_gate_def Let_def print_def)














lemma dispatch_buy:
  assumes "\<not> transaction_made_in_tick st" and "renders (self st) (next_val st)"
    and "length (img st) = nat (fst (image_shape (self st)))"
  shows "\<exists>st'. dispatch 99 st = Inr st'
           \<and> bought_position st' =
               Some ((case bought_position st of None \<Rightarrow> [] | Some entries \<Rightarrow> entries) @ [next_val st])
           \<and> self st' = self st \<and> length (img st') = length (img st)
           \<and> transaction_made_in_tick st' \<and> stdout st' = stdout st @ [Bought_at (next_val st)]
           \<and> next_val st' = next_val st \<and> previous_step_time st' = previous_step_time st"
proof -
  obtain im where "update (self st) (img st) (next_val st) True False = Inr im"
    and "length im = length (img st)"
    using update_ok [OF assms(2,3)] by blast
  then show ?thesis
    using assms(1) by (simp add: dispatch_def Let_def print_def split: option.split)
qed

lemma dispatch_sell:
  assumes "\<not> transaction_made_in_tick st" and "bought_position st = Some entries"
    and "renders (self st) (next_val st)"
    and "length (img st) = nat (fst (image_shape (self st)))"
  shows "\<exists>st'. dispatch 118 st = Inr st'
           \<and> bought_position st' = None
           \<and> self st' = (self st)\<lparr>trades := trades (self st) @
                 [\<lparr>buy = np_mean entries, sell = next_val st\<rparr>]\<rparr>
           \<and> length (img st') = length (img st) \<and> transaction_made_in_tick st'
           \<and> stdout st' = stdout st @
                 [Sold_at (next_val st),
                  Profit (minus_int (np_mean entries) (next_val st)) (np_mean entries) (next_val st)]
           \<and> next_val st' = next_val st \<and> previous_step_time st' = previous_step_time st"
proof -
  obtain im where "update (self st) (img st) (next_val st) False True = Inr im"
    and "length im = length (img st)"
    using update_ok [OF assms(3,4)] by blast
  then show ?thesis
    using assms(1,2) by (simp add: dispatch_def Let_def print_def)
qed

lemma renders_trades [simp]: "renders (sim\<lparr>trades := ts\<rparr>) nv = renders sim nv"
  by (simp add: renders_def ev_row_def value_row_def)

lemma renders_default_5_7_10:
  "renders default_simulator 5" "renders default_simulator 7" "renders default_simulator 10"
  by code_simp+

lemma default_fields [simp]:
  "fst (image_shape default_simulator) = 250" "t_update default_simulator = 1 / 50"
  by (simp_all add: default_simulator_def)










text \<open>
  Claim C4. From a state of the default simulator with no open position and the flag
  clear: a buy at 5, a tick, a buy at 7, a tick and a sell at 10 all succeed; the position
  is then \<open>[5, 7]\<close> with mean 6, the sale prints the profit \<open>6 - 10 = - 4\<close>,
  appends exactly the trade (6, 10), clears the position, and a status key then prints the
  flat value.
\<close>

theorem buy_buy_sell:
  assumes "bought_position s0 = None" and "\<not> transaction_made_in_tick s0"
    and "self s0 = default_simulator\<lparr>trades := ts\<rparr>" and "length (img s0) = 250"
    and "t1 - previous_step_time s0 > 1 / 50" and "t2 - t1 > 1 / 50"
  shows "\<exists>s1 s2 s3 s4 s5 s6.
      dispatch 99 (s0\<lparr>next_val := 5\<rparr>) = Inr s1 \<and> tick_gate t1 s1 = Inr s2
    \<and> dispatch 99 (s2\<lparr>next_val := 7\<rparr>) = Inr s3 \<and> tick_gate t2 s3 = Inr s4
    \<and> bought_position s4 = Some [5, 7] \<and> trades (self s4) = ts
    \<and> dispatch 115 s4 = Inr (print [Position_status (PyFloat 6)] s4)
    \<and> dispatch 118 (s4\<lparr>next_val := 10\<rparr>) = Inr s5
    \<and> stdout s5 = stdout s4 @ [Sold_at 10, Profit (PyFloat (- 4)) (PyFloat 6) 10]
    \<and> trades (self s5) = ts @ [\<lparr>buy = PyFloat 6, sell = 10\<rparr>]
    \<and> bought_position s5 = None
    \<and> dispatch 115 s5 = Inr s6 \<and> stdout s6 = stdout s5 @ [Position_status (PyInt 0)]
    \<and> bought_position s6 = None \<and> trades (self s6) = trades (self s5)"
proof -
  let ?sim = "default_simulator\<lparr>trades := ts\<rparr>"
  obtain s1 where d1: "dispatch 99 (s0\<lparr>next_val := 5\<rparr>) = Inr s1"
    and s1: "bought_position s1 = Some [5]" "self s1 = ?sim" "length (img s1) = 250"
      "transaction_made_in_tick s1" "previous_step_time s1 = previous_step_time s0"
    using dispatch_buy [of "s0\<lparr>next_val := 5\<rparr>"] assms(1-4)
    by (auto simp: renders_default_5_7_10)
  define s2 where "s2 = print [Step (next_val s1), Elapsed (t1 - previous_step_time s1)] s1
           \<lparr>previous_step_time := t1, transaction_made_in_tick := False\<rparr>"
  have g1: "tick_gate t1 s1 = Inr s2"
    unfolding s2_def using assms(5) s1 by (intro tick_gate_after_transaction) simp_all
  have s2: "bought_position s2 = Some [5]" "self s2 = ?sim" "length (img s2) = 250"
    "\<not> transaction_made_in_tick s2" "previous_step_time s2 = t1"
    using s1 by (simp_all add: s2_def print_def)
  obtain s3 where d2: "dispatch 99 (s2\<lparr>next_val := 7\<rparr>) = Inr s3"
    and s3: "bought_position s3 = Some [5, 7]" "self s3 = ?sim" "length (img s3) = 250"
      "transaction_made_in_tick s3" "previous_step_time s3 = t1"
    using dispatch_buy [of "s2\<lparr>next_val := 7\<rparr>"] s2
    by (auto simp: renders_default_5_7_10)
  define s4 where "s4 = print [Step (next_val s3), Elapsed (t2 - previous_step_time s3)] s3
           \<lparr>previous_step_time := t2, transaction_made_in_tick := False\<rparr>"
  have g2: "tick_gate t2 s3 = Inr s4"
    unfolding s4_def using assms(6) s3 by (intro tick_gate_after_transaction) simp_all
  have s4: "bought_position s4 = Some [5, 7]" "self s4 = ?sim" "length (img s4) = 250"
    "\<not> transaction_made_in_tick s4"
    using s3 by (simp_all add: s4_def print_def)
  have m: "np_mean [5, 7] = PyFloat 6"
    by (simp add: np_mean_def)
  have q4: "dispatch 115 s4 = Inr (print [Position_status (PyFloat 6)] s4)"
    using s4(1) m by (simp add: dispatch_status)
  obtain s5 where d3: "dispatch 118 (s4\<lparr>next_val := 10\<rparr>) = Inr s5"
    and s5: "bought_position s5 = None"
      "self s5 = ?sim\<lparr>trades := trades ?sim @ [\<lparr>buy = np_mean [5, 7], sell = 10\<rparr>]\<rparr>"
      "stdout s5 = stdout s4 @ [Sold_at 10, Profit (minus_int (np_mean [5, 7]) 10) (np_mean [5, 7]) 10]"
    using dispatch_sell [of "s4\<lparr>next_val := 10\<rparr>" "[5, 7]"] s4
    by (auto simp: renders_default_5_7_10)
  have q5: "dispatch 115 s5 = Inr (print [Position_status (PyInt 0)] s5)"
    using s5(1) by (simp add: dispatch_status)
  have "stdout s5 = stdout s4 @ [Sold_at 10, Profit (PyFloat (- 4)) (PyFloat 6) 10]"
    and "trades (self s5) = ts @ [\<lparr>buy = PyFloat 6, sell = 10\<rparr>]"
    using s5 m by simp_all
  then show ?thesis
    using d1 g1 d2 g2 s4(1,2) q4 d3 s5(1) q5 by (simp add: print_def)
qed

theorem buy_buy_sell_witness:
  "bought_position fresh = None \<and> \<not> transaction_made_in_tick fresh \<and> length (img fresh) = 250
   \<and> (\<exists>s1 s2 s3 s4 s5 s6.
      dispatch 99 (fresh\<lparr>next_val := 5\<rparr>) = Inr s1 \<and> tick_gate 1 s1 = Inr s2
    \<and> dispatch 99 (s2\<lparr>next_val := 7\<rparr>) = Inr s3 \<and> tick_gate 2 s3 = Inr s4
    \<and> bought_position s4 = Some [5, 7] \<and> trades (self s4) = []
    \<and> dispatch 115 s4 = Inr (print [Position_status (PyFloat 6)] s4)
    \<and> dispatch 118 (s4\<lparr>next_val := 10\<rparr>) = Inr s5
    \<and> stdout s5 = stdout s4 @ [Sold_at 10, Profit (PyFloat (- 4)) (PyFloat 6) 10]
    \<and> trades (self s5) = [\<lparr>buy = PyFloat 6, sell = 10\<rparr>]
    \<and> bought_position s5 = None
    \<and> dispatch 115 s5 = Inr s6 \<and> stdout s6 = stdout s5 @ [Position_status (PyInt 0)]
    \<and> bought_position s6 = None \<and> trades (self s6) = trades (self s5))"
proof -
  have h: "bought_position fresh = None" "\<not> transaction_made_in_tick fresh"
    "self fresh = default_simulator\<lparr>trades := []\<rparr>" "length (img fresh) = 250"
    "1 - previous_step_time fresh > 1 / 50" "(2 :: rat) - 1 > 1 / 50"
    by (simp_all add: fresh_def blank_def default_simulator_def)
  show ?thesis
    using buy_buy_sell [OF h] h(1,2,4) by simp
qed

lemma enter_default: "enter default_simulator now =
  Inr \<lparr> self = default_simulator, bought_position = None, next_val = 45,
        previous_step_time = now, img = blank, transaction_made_in_tick = False, stdout = [] \<rparr>"
  by (simp add: enter_def np_zeros_def default_simulator_def blank_def)

lemma iteration_quiet:
  assumes "key p = - 1" and "\<not> clock p - previous_step_time st > t_update (self st)"
  shows "iteration p st = Inr (True, reprice p st)"
proof -
  have d: "dispatch (key p) (reprice p st) = Inr (reprice p st)"
    using assms(1) by (simp add: dispatch_def)
  have t: "tick_gate (clock p) (reprice p st) = Inr (reprice p st)"
    using assms(2) by (intro tick_gate_closed) (simp add: reprice_def)
  show ?thesis
    unfolding iteration_def Let_def reprice_def [symmetric] using assms(1) d t by simp
qed

lemma iteration_quiet_tick:
  assumes "key p = - 1" and "clock p - previous_step_time st > t_update (self st)"
    and "\<not> transaction_made_in_tick st"
  shows "iteration p st =
     and_then (update (self st) (img st) (next_val (reprice p st)) False False) (\<lambda>im.
       Inr (True, print [Step (next_val (reprice p st)), Elapsed (clock p - previous_step_time st)]
                    (reprice p st)\<lparr>previous_step_time := clock p, img := im,
                                   transaction_made_in_tick := False\<rparr>))"
proof -
  have d: "dispatch (key p) (reprice p st) = Inr (reprice p st)"
    using assms(1) by (simp add: dispatch_def)
  show ?thesis
    unfolding iteration_def Let_def reprice_def [symmetric] using assms d
    by (cases "update (self st) (img st) (next_val (reprice p st)) False False")
      (simp_all add: tick_gate_def Let_def reprice_def print_def)
qed

lemma reprice_quiet:
  "self st = default_simulator \<Longrightarrow> reprice quiet st = st\<lparr>next_val := number_generator (next_val st) 45 (9 / 10)\<rparr>"
  "self st = default_simulator \<Longrightarrow> reprice quiet_tick st = st\<lparr>next_val := number_generator (next_val st) 45 (9 / 10)\<rparr>"
  by (simp_all add: reprice_def quiet_def quiet_tick_def default_simulator_def)

lemma price_path:
  "number_generator 45 45 (9 / 10) = 54" "number_generator 54 45 (9 / 10) = 57"
  "number_generator 57 45 (9 / 10) = 60" "number_generator 60 45 (9 / 10) = 63"
  "number_generator 63 45 (9 / 10) = 67" "number_generator 67 45 (9 / 10) = 71"
  "number_generator 71 45 (9 / 10) = 75" "number_generator 75 45 (9 / 10) = 79"
  "number_generator 79 45 (9 / 10) = 84" "number_generator 84 45 (9 / 10) = 89"
  "number_generator 89 45 (9 / 10) = 94"
  by (simp_all add: number_generator_def uniform_def py_int_def floor_rat_numeral)

text \<open>
  Claim C7 fails on the code. The default simulator enters the loop at 45; with
  \<open>random()\<close> at 0.9 in eleven iterations and no key pressed, the price is 54, 57, 60,
  63, 67, 71, 75, 79, 84, 89 and 94. When the tick gate fires at 94, line 177 indexes row
  261 of a column of 250 rows, and the loop ends with IndexError.
\<close>

theorem price_94_raises_IndexError:
  "and_then (enter default_simulator 0)
     (iterations [quiet, quiet, quiet, quiet, quiet, quiet, quiet, quiet, quiet, quiet, quiet_tick])
   = Inl IndexError"
proof -
  have q: "iteration quiet st = Inr (True, reprice quiet st)"
    if "self st = default_simulator" "previous_step_time st = 0" for st
    using that by (intro iteration_quiet) (simp_all add: quiet_def default_simulator_def)
  have u: "update default_simulator im 94 False False = Inl IndexError" for im
    by (rule update_IndexError) (simp_all add: value_row_default_94 in_bounds_def, simp_all add: default_simulator_def)
  have t: "iteration quiet_tick st = Inl IndexError"
    if "self st = default_simulator" "previous_step_time st = 0" "next_val st = 89"
       "\<not> transaction_made_in_tick st" for st
  proof -
    have "iteration quiet_tick st =
      and_then (update (self st) (img st) (next_val (reprice quiet_tick st)) False False) (\<lambda>im.
       Inr (True, print [Step (next_val (reprice quiet_tick st)), Elapsed (clock quiet_tick - previous_step_time st)]
                    (reprice quiet_tick st)\<lparr>previous_step_time := clock quiet_tick, img := im,
                                   transaction_made_in_tick := False\<rparr>))"
      using that by (intro iteration_quiet_tick) (simp_all add: quiet_tick_def default_simulator_def)
    then show ?thesis
      using that u by (simp add: reprice_quiet price_path)
  qed
  show ?thesis
    by (simp add: enter_default q t reprice_quiet price_path)
qed

end
